theory Spec2Isabelle
  imports Main "HOL-Library.Word" "HOL-Library.Finite_Map"
begin

section \<open>Go values used by the renderer\<close>

text \<open>
  The Go type \<open>int\<close> is taken at its width on the 64-bit platforms the browser runs on;
  \<open>time.Duration\<close> is an \<open>int64\<close> count of nanoseconds. Arithmetic on both wraps
  around, comparisons are signed.
\<close>

type_synonym go_int = "64 word"
type_synonym Duration = "64 word"
type_synonym byte = "8 word"

definition Second :: Duration where
  "Second = 1000000000"

text \<open>The conversion \<open>time.Duration(n)\<close> of an \<open>int\<close>: the same 64 bits.\<close>

definition time_Duration :: "go_int \<Rightarrow> Duration" where
  "time_Duration n = n"

text \<open>
  A Go map \<open>map[string]interface{}\<close> is a finite map; the values are of any type \<open>'v\<close>.
  The nil map and the empty map both have length 0.
\<close>

definition len_map :: "('k, 'v) fmap \<Rightarrow> nat" where
  "len_map m = fcard (fmdom m)"

text \<open>
  A parsed \<open>*url.URL\<close> is represented by the text its \<open>String\<close> method returns: the
  renderer reads nothing else of it.
\<close>

type_synonym URL = string

definition url_String :: "URL \<Rightarrow> string" where
  "url_String u = u"

section \<open>Automation steps\<close>

text \<open>
  One constructor for each chromedp action the builders emit. The buffers the capture
  steps write to are always the two fields of the result under construction, so they
  are not part of the step.
  \<^item> \<open>NetworkEnable\<close> is \<open>network.Enable()\<close>;
  \<^item> \<open>PrintToPDF b\<close> is the action function running
    \<open>page.PrintToPDF().WithDisplayHeaderFooter(b)\<close>;
  \<^item> \<open>FullScreenshot q\<close> is \<open>chromedp.FullScreenshot(buf, q)\<close>.
\<close>

datatype QueryOption = ByQueryAll

datatype 'v Action =
    NetworkEnable
  | SetExtraHTTPHeaders "(string, 'v) fmap"
  | Navigate string
  | Evaluate string
  | Sleep Duration
  | Stop
  | OuterHTML string QueryOption
  | PrintToPDF bool
  | FullScreenshot nat
  | CaptureScreenshot

section \<open>The browser package\<close>

record ChromeBrowserImage =
  Data :: "byte list"
  DOM :: string

record 'v ChromeBrowserOptions =
  Width :: go_int
  Height :: go_int
  UserAgent :: string
  JsCode :: string
  Timeout :: go_int
  Delay :: go_int
  FullPage :: bool
  Path :: string
  Proxy :: string
  Headers :: "string list"
  HeadersMap :: "(string, 'v) fmap"
  ScreenshotCodes :: "go_int list"
  AsPDF :: bool

text \<open>Of the \<open>ChromeBrowser\<close> struct only the options matter here; logger and meter are omitted.\<close>

record 'v ChromeBrowser =
  options :: "'v ChromeBrowserOptions"

text \<open>\<open>ChromeBrowser.buildTasks\<close>: the slice \<open>actions\<close> grows by appending, as in the source.\<close>

definition ChromeBrowser_buildTasks :: "'v ChromeBrowser \<Rightarrow> URL \<Rightarrow> bool \<Rightarrow> 'v Action list" where
  "ChromeBrowser_buildTasks c url doNavigate =
    (let actions = [];
         actions =
           (if len_map (ChromeBrowserOptions.HeadersMap (ChromeBrowser.options c)) > 0
            then actions @ [NetworkEnable,
                   SetExtraHTTPHeaders (ChromeBrowserOptions.HeadersMap (ChromeBrowser.options c))]
            else actions);
         actions =
           (if doNavigate then
              (let actions = actions @ [Navigate (url_String url)];
                   actions =
                     (if length (ChromeBrowserOptions.JsCode (ChromeBrowser.options c)) > 0
                      then actions @ [Evaluate (ChromeBrowserOptions.JsCode (ChromeBrowser.options c))]
                      else actions);
                   actions =
                     (if 0 <s ChromeBrowserOptions.Delay (ChromeBrowser.options c)
                      then actions @
                        [Sleep (time_Duration (ChromeBrowserOptions.Delay (ChromeBrowser.options c)) * Second)]
                      else actions)
               in actions @ [Stop])
            else actions);
         actions = actions @ [OuterHTML '':root'' ByQueryAll]
     in if ChromeBrowserOptions.AsPDF (ChromeBrowser.options c)
        then actions @ [PrintToPDF True]
        else if ChromeBrowserOptions.FullPage (ChromeBrowser.options c)
        then actions @ [FullScreenshot 100]
        else actions @ [CaptureScreenshot])"

section \<open>The duplicated builder of the processor package\<close>

record ChromeScreenshot =
  data :: "byte list"
  dom :: string

record 'v ChromeProcessorOptions =
  Width :: go_int
  Height :: go_int
  UserAgent :: string
  JsCode :: string
  Timeout :: go_int
  Delay :: go_int
  FullPage :: bool
  Path :: string
  Proxy :: string
  Headers :: "string list"
  HeadersMap :: "(string, 'v) fmap"
  ScreenshotCodes :: "go_int list"
  AsPDF :: bool

record 'v ChromeProcessor =
  options :: "'v ChromeProcessorOptions"

text \<open>\<open>ChromeProcessor.buildTasks\<close>, translated on its own from its own source text.\<close>

definition ChromeProcessor_buildTasks :: "'v ChromeProcessor \<Rightarrow> URL \<Rightarrow> bool \<Rightarrow> 'v Action list" where
  "ChromeProcessor_buildTasks p url doNavigate =
    (let actions = [];
         actions =
           (if len_map (ChromeProcessorOptions.HeadersMap (ChromeProcessor.options p)) > 0
            then actions @ [NetworkEnable,
                   SetExtraHTTPHeaders (ChromeProcessorOptions.HeadersMap (ChromeProcessor.options p))]
            else actions);
         actions =
           (if doNavigate then
              (let actions = actions @ [Navigate (url_String url)];
                   actions =
                     (if length (ChromeProcessorOptions.JsCode (ChromeProcessor.options p)) > 0
                      then actions @ [Evaluate (ChromeProcessorOptions.JsCode (ChromeProcessor.options p))]
                      else actions);
                   actions =
                     (if 0 <s ChromeProcessorOptions.Delay (ChromeProcessor.options p)
                      then actions @
                        [Sleep (time_Duration (ChromeProcessorOptions.Delay (ChromeProcessor.options p)) * Second)]
                      else actions)
               in actions @ [Stop])
            else actions);
         actions = actions @ [OuterHTML '':root'' ByQueryAll]
     in if ChromeProcessorOptions.AsPDF (ChromeProcessor.options p)
        then actions @ [PrintToPDF True]
        else if ChromeProcessorOptions.FullPage (ChromeProcessor.options p)
        then actions @ [FullScreenshot 100]
        else actions @ [CaptureScreenshot])"

section \<open>Errors, contexts and the browser library\<close>

text \<open>
  Go error values: the two context errors, a plain error, and an error wrapping another.
  \<open>errors.Is\<close> follows the chain of wrapped errors; on a nil error it is false.
\<close>

datatype error =
    DeadlineExceeded
  | Canceled
  | ErrorString string
  | WrapError string error

fun Error :: "error \<Rightarrow> string" where
  "Error DeadlineExceeded = ''context deadline exceeded''"
| "Error Canceled = ''context canceled''"
| "Error (ErrorString s) = s"
| "Error (WrapError msg e) = msg"

fun unwrap_Is :: "error \<Rightarrow> error \<Rightarrow> bool" where
  "unwrap_Is (WrapError msg e) target = (WrapError msg e = target \<or> unwrap_Is e target)"
| "unwrap_Is e target = (e = target)"

definition errors_Is :: "error option \<Rightarrow> error \<Rightarrow> bool" where
  "errors_Is err target = (case err of None \<Rightarrow> False | Some e \<Rightarrow> unwrap_Is e target)"

datatype ExecAllocatorOption =
    DefaultExecAllocatorOptions
  | chromedp_UserAgent string
  | chromedp_DisableGPU
  | chromedp_Flag string bool
  | chromedp_WindowSize go_int go_int
  | chromedp_ExecPath string
  | chromedp_ProxyServer string

text \<open>
  A context is the chain it was derived by. \<open>context.WithTimeout(parent, d)\<close> is
  \<open>WithDeadline\<close> at the time of the call plus \<open>d\<close>; times are nanoseconds.
\<close>

datatype Context =
    Background
  | NewExecAllocator Context "ExecAllocatorOption list"
  | NewContext Context
  | WithDeadline Context int

definition context_WithTimeout :: "Context \<Rightarrow> Duration \<Rightarrow> int \<Rightarrow> Context" where
  "context_WithTimeout parent d now = WithDeadline parent (now + sint d)"

text \<open>
  What the code calls outside this repository, over a state \<open>'w\<close> of the outside world
  (the clock, the browser process, its tabs):
  \<^item> \<open>time_Now\<close> reads the clock;
  \<^item> \<open>Run ctx tasks b d w\<close> is \<open>chromedp.Run(ctx, tasks...)\<close>, where \<open>b\<close> and
    \<open>d\<close> are the contents of the two buffers the capture steps point to; it returns
    the error (or nil), the buffers and the world afterwards;
  \<^item> \<open>cancel ctx\<close> is the cancel function returned with \<open>ctx\<close>;
  \<^item> \<open>utils_IsEmpty\<close> and \<open>url_Parse\<close> are the library functions of these names.
  The event listeners registered with \<open>chromedp.ListenTarget\<close> run beside a run in
  progress: they log events, accept JavaScript dialogs and cancel a context when its
  target crashes. They belong to the outside world, and what they do to a run shows as
  the error that run returns. The calls of \<open>Run\<close> counted below are those the function
  itself makes, one after the other.
\<close>

record ('v, 'w) chromedp =
  time_Now :: "'w \<Rightarrow> int"
  Run :: "Context \<Rightarrow> 'v Action list \<Rightarrow> byte list \<Rightarrow> string \<Rightarrow> 'w
            \<Rightarrow> error option \<times> byte list \<times> string \<times> 'w"
  cancel :: "Context \<Rightarrow> 'w \<Rightarrow> 'w"
  utils_IsEmpty :: "string \<Rightarrow> bool"
  url_Parse :: "string \<Rightarrow> error + URL"

text \<open>Deferred cancel functions run when the function returns, last deferred first.\<close>

definition run_deferred :: "('v, 'w) chromedp \<Rightarrow> Context list \<Rightarrow> 'w \<Rightarrow> 'w" where
  "run_deferred env ctxs w = fold (cancel env) ctxs w"

section \<open>ChromeBrowser.Image\<close>

definition ChromeBrowser_exec_options :: "'v ChromeBrowser \<Rightarrow> ExecAllocatorOption list" where
  "ChromeBrowser_exec_options c =
    (let opts = [];
         opts = opts @ [DefaultExecAllocatorOptions];
         opts = opts @ [chromedp_UserAgent (ChromeBrowserOptions.UserAgent (ChromeBrowser.options c))];
         opts = opts @ [chromedp_DisableGPU];
         opts = opts @ [chromedp_Flag ''ignore-certificate-errors'' True];
         opts = opts @ [chromedp_WindowSize (ChromeBrowserOptions.Width (ChromeBrowser.options c))
                                (ChromeBrowserOptions.Height (ChromeBrowser.options c))];
         opts =
           (if ChromeBrowserOptions.Path (ChromeBrowser.options c) \<noteq> []
            then opts @ [chromedp_ExecPath (ChromeBrowserOptions.Path (ChromeBrowser.options c))]
            else opts);
         opts =
           (if ChromeBrowserOptions.Proxy (ChromeBrowser.options c) \<noteq> []
            then opts @ [chromedp_ProxyServer (ChromeBrowserOptions.Proxy (ChromeBrowser.options c))]
            else opts)
     in opts)"

definition ChromeBrowser_actx :: "'v ChromeBrowser \<Rightarrow> Context" where
  "ChromeBrowser_actx c = NewExecAllocator Background (ChromeBrowser_exec_options c)"

definition ChromeBrowser_browserCtx :: "'v ChromeBrowser \<Rightarrow> Context" where
  "ChromeBrowser_browserCtx c = NewContext (ChromeBrowser_actx c)"

text \<open>The duration \<open>time.Duration(c.options.Timeout)*time.Second\<close> of both tab contexts.\<close>

definition ChromeBrowser_timeout :: "'v ChromeBrowser \<Rightarrow> Duration" where
  "ChromeBrowser_timeout c = time_Duration (ChromeBrowserOptions.Timeout (ChromeBrowser.options c)) * Second"

text \<open>
  \<open>ChromeBrowser.Image\<close>. The result \<open>r\<close> starts with empty fields; the tasks of both runs
  write to \<open>r.Data\<close> and \<open>r.DOM\<close>. The first run, of the browser context alone, has no
  tasks and cannot write to them. The pair \<open>(nil, err)\<close> or \<open>(r, nil)\<close> the function
  returns is a sum.
\<close>

definition ChromeBrowser_Image ::
  "('v, 'w) chromedp \<Rightarrow> 'v ChromeBrowser \<Rightarrow> URL \<Rightarrow> 'w \<Rightarrow> (error + ChromeBrowserImage) \<times> 'w" where
  "ChromeBrowser_Image env c url w0 =
    (let actx = ChromeBrowser_actx c;
         browserCtx = ChromeBrowser_browserCtx c;
         tabCtx = context_WithTimeout browserCtx (ChromeBrowser_timeout c) (time_Now env w0)
     in case Run env browserCtx [] [] [] w0 of
          (Some err, _, _, w) \<Rightarrow> (Inl err, run_deferred env [tabCtx, browserCtx, actx] w)
        | (None, _, _, w) \<Rightarrow>
            (case Run env tabCtx (ChromeBrowser_buildTasks c url True) [] [] w of
               (err, b, d, w) \<Rightarrow>
                 (case (if errors_Is err DeadlineExceeded
                        then (let newTabCtx =
                                    context_WithTimeout browserCtx (ChromeBrowser_timeout c) (time_Now env w)
                              in case Run env newTabCtx (ChromeBrowser_buildTasks c url False) b d w of
                                   (err, b, d, w) \<Rightarrow> (err, b, d, w, [newTabCtx]))
                        else (err, b, d, w, []))
                  of (err, b, d, w, deferred) \<Rightarrow>
                    (case err of
                       Some e \<Rightarrow>
                         (Inl e, run_deferred env (deferred @ [tabCtx, browserCtx, actx]) w)
                     | None \<Rightarrow>
                         (Inr \<lparr>Data = b, DOM = d\<rparr>,
                          run_deferred env (deferred @ [tabCtx, browserCtx, actx])
                            (cancel env tabCtx w))))))"

text \<open>
  A recording environment: it behaves as \<open>env\<close> and appends every call of \<open>Run\<close>, with
  its context and its tasks, to a log kept beside the world.
\<close>

definition logged :: "('v, 'w) chromedp \<Rightarrow> ('v, 'w \<times> (Context \<times> 'v Action list) list) chromedp" where
  "logged env =
    \<lparr>time_Now = (\<lambda>(w, log). time_Now env w),
     Run = (\<lambda>ctx tasks b d (w, log).
              case Run env ctx tasks b d w of
                (err, b', d', w') \<Rightarrow> (err, b', d', (w', log @ [(ctx, tasks)]))),
     cancel = (\<lambda>ctx (w, log). (cancel env ctx w, log)),
     utils_IsEmpty = utils_IsEmpty env,
     url_Parse = url_Parse env\<rparr>"

section \<open>ChromeProcessor.Screenshot\<close>

definition ChromeProcessor_exec_options :: "'v ChromeProcessor \<Rightarrow> ExecAllocatorOption list" where
  "ChromeProcessor_exec_options p =
    (let opts = [];
         opts = opts @ [DefaultExecAllocatorOptions];
         opts = opts @ [chromedp_UserAgent (ChromeProcessorOptions.UserAgent (ChromeProcessor.options p))];
         opts = opts @ [chromedp_DisableGPU];
         opts = opts @ [chromedp_Flag ''ignore-certificate-errors'' True];
         opts = opts @ [chromedp_WindowSize (ChromeProcessorOptions.Width (ChromeProcessor.options p))
                                (ChromeProcessorOptions.Height (ChromeProcessor.options p))];
         opts =
           (if ChromeProcessorOptions.Path (ChromeProcessor.options p) \<noteq> []
            then opts @ [chromedp_ExecPath (ChromeProcessorOptions.Path (ChromeProcessor.options p))]
            else opts);
         opts =
           (if ChromeProcessorOptions.Proxy (ChromeProcessor.options p) \<noteq> []
            then opts @ [chromedp_ProxyServer (ChromeProcessorOptions.Proxy (ChromeProcessor.options p))]
            else opts)
     in opts)"

definition ChromeProcessor_actx :: "'v ChromeProcessor \<Rightarrow> Context" where
  "ChromeProcessor_actx p = NewExecAllocator Background (ChromeProcessor_exec_options p)"

definition ChromeProcessor_browserCtx :: "'v ChromeProcessor \<Rightarrow> Context" where
  "ChromeProcessor_browserCtx p = NewContext (ChromeProcessor_actx p)"

definition ChromeProcessor_timeout :: "'v ChromeProcessor \<Rightarrow> Duration" where
  "ChromeProcessor_timeout p =
     time_Duration (ChromeProcessorOptions.Timeout (ChromeProcessor.options p)) * Second"

text \<open>\<open>ChromeProcessor.Screenshot\<close>, the same steps over the processor's own types.\<close>

definition ChromeProcessor_Screenshot ::
  "('v, 'w) chromedp \<Rightarrow> 'v ChromeProcessor \<Rightarrow> URL \<Rightarrow> 'w \<Rightarrow> (error + ChromeScreenshot) \<times> 'w" where
  "ChromeProcessor_Screenshot env p url w0 =
    (let actx = ChromeProcessor_actx p;
         browserCtx = ChromeProcessor_browserCtx p;
         tabCtx = context_WithTimeout browserCtx (ChromeProcessor_timeout p) (time_Now env w0)
     in case Run env browserCtx [] [] [] w0 of
          (Some err, _, _, w) \<Rightarrow> (Inl err, run_deferred env [tabCtx, browserCtx, actx] w)
        | (None, _, _, w) \<Rightarrow>
            (case Run env tabCtx (ChromeProcessor_buildTasks p url True) [] [] w of
               (err, b, d, w) \<Rightarrow>
                 (case (if errors_Is err DeadlineExceeded
                        then (let newTabCtx =
                                    context_WithTimeout browserCtx (ChromeProcessor_timeout p) (time_Now env w)
                              in case Run env newTabCtx (ChromeProcessor_buildTasks p url False) b d w of
                                   (err, b, d, w) \<Rightarrow> (err, b, d, w, [newTabCtx]))
                        else (err, b, d, w, []))
                  of (err, b, d, w, deferred) \<Rightarrow>
                    (case err of
                       Some e \<Rightarrow>
                         (Inl e, run_deferred env (deferred @ [tabCtx, browserCtx, actx]) w)
                     | None \<Rightarrow>
                         (Inr \<lparr>ChromeScreenshot.data = b, ChromeScreenshot.dom = d\<rparr>,
                          run_deferred env (deferred @ [tabCtx, browserCtx, actx])
                            (cancel env tabCtx w))))))"

section \<open>The image processor\<close>

record 'v ImageProcessorRequest =
  URL :: string
  Kind :: string
  Width :: go_int
  Height :: go_int
  UserAgent :: string
  Timeout :: go_int
  Delay :: go_int
  AsPDF :: bool
  Headers :: "(string, 'v) fmap"

record ImageProcessorOptions =
  Width :: go_int
  Height :: go_int
  UserAgent :: string
  Timeout :: go_int
  Delay :: go_int
  BrowserPath :: string
  BrowserKind :: string
  AsPDF :: bool

text \<open>Of the \<open>ImageProcessor\<close> struct, too, only the options are kept.\<close>

record ImageProcessor =
  options :: ImageProcessorOptions

definition NewChromeBrowser :: "'v ChromeBrowserOptions \<Rightarrow> 'v ChromeBrowser" where
  "NewChromeBrowser opts = \<lparr>ChromeBrowser.options = opts\<rparr>"

text \<open>
  The first part of \<open>ImageProcessor.chromeImage\<close>, up to the value of its local variable
  \<open>options\<close>. Fields the struct literal does not name have Go's zero value.
\<close>

definition chromeImage_options ::
  "('v, 'w) chromedp \<Rightarrow> ImageProcessor \<Rightarrow> 'v ImageProcessorRequest \<Rightarrow> 'v ChromeBrowserOptions" where
  "chromeImage_options env p r =
    (let width = ImageProcessorRequest.Width r;
         width = (if width = 0 then ImageProcessorOptions.Width (ImageProcessor.options p) else width);
         height = ImageProcessorRequest.Height r;
         height = (if height = 0 then ImageProcessorOptions.Height (ImageProcessor.options p) else height);
         userAgent = ImageProcessorRequest.UserAgent r;
         userAgent = (if utils_IsEmpty env userAgent
                      then ImageProcessorOptions.UserAgent (ImageProcessor.options p) else userAgent);
         timeout = ImageProcessorRequest.Timeout r;
         timeout = (if timeout = 0 then ImageProcessorOptions.Timeout (ImageProcessor.options p) else timeout);
         delay = ImageProcessorRequest.Delay r;
         delay = (if delay = 0 then ImageProcessorOptions.Delay (ImageProcessor.options p) else delay)
     in \<lparr>ChromeBrowserOptions.Width = width,
         ChromeBrowserOptions.Height = height,
         ChromeBrowserOptions.UserAgent = userAgent,
         ChromeBrowserOptions.JsCode = [],
         ChromeBrowserOptions.Timeout = timeout,
         ChromeBrowserOptions.Delay = delay,
         ChromeBrowserOptions.FullPage = True,
         ChromeBrowserOptions.Path = ImageProcessorOptions.BrowserPath (ImageProcessor.options p),
         ChromeBrowserOptions.Proxy = [],
         ChromeBrowserOptions.Headers = [],
         ChromeBrowserOptions.HeadersMap = ImageProcessorRequest.Headers r,
         ChromeBrowserOptions.ScreenshotCodes = [],
         ChromeBrowserOptions.AsPDF = ImageProcessorRequest.AsPDF r\<rparr>)"

text \<open>\<open>ImageProcessor.chromeImage\<close>: the options, the browser, the URL, the image.\<close>

definition ImageProcessor_chromeImage ::
  "('v, 'w) chromedp \<Rightarrow> ImageProcessor \<Rightarrow> 'v ImageProcessorRequest \<Rightarrow> 'w \<Rightarrow> (error + byte list) \<times> 'w" where
  "ImageProcessor_chromeImage env p r w =
    (let opts = chromeImage_options env p r;
         chrome = NewChromeBrowser opts
     in case url_Parse env (ImageProcessorRequest.URL r) of
          Inl err \<Rightarrow> (Inl err, w)
        | Inr u \<Rightarrow>
            (case ChromeBrowser_Image env chrome u w of
               (Inl err, w') \<Rightarrow> (Inl err, w')
             | (Inr img, w') \<Rightarrow> (Inr (ChromeBrowserImage.Data img), w')))"

text \<open>
  \<open>ImageProcessor.HandleHttpRequest\<close>. From the HTTP request it takes the path, the
  outcome \<open>parsed\<close> of \<open>r.ParseForm()\<close> and the outcome \<open>decoded\<close> of decoding the form;
  \<open>written\<close> is the outcome of writing the response body. What it does to the counters
  and to the response is returned as a list of effects, in order.
\<close>

datatype HttpEffect =
    CounterInc string string
  | HttpError string nat
  | ResponseWrite "byte list"

definition StatusInternalServerError :: nat where
  "StatusInternalServerError = 500"

definition strings_TrimLeft :: "string \<Rightarrow> string \<Rightarrow> string" where
  "strings_TrimLeft s cutset = dropWhile (\<lambda>ch. ch \<in> set cutset) s"

definition ImageProcessor_HandleHttpRequest ::
  "('v, 'w) chromedp \<Rightarrow> ImageProcessor \<Rightarrow> string \<Rightarrow> error option
     \<Rightarrow> error + 'v ImageProcessorRequest \<Rightarrow> error option \<Rightarrow> 'w
     \<Rightarrow> error option \<times> HttpEffect list \<times> 'w" where
  "ImageProcessor_HandleHttpRequest env p path parsed decoded written w =
    (let channel = strings_TrimLeft path ''/'';
         effects = [CounterInc ''requests'' channel]
     in case parsed of
          Some err \<Rightarrow>
            (Some err,
             effects @ [CounterInc ''errors'' channel,
               HttpError (''could not parse form: '' @ Error err) StatusInternalServerError], w)
        | None \<Rightarrow>
            (case decoded of
               Inl err \<Rightarrow>
                 (Some err,
                  effects @ [CounterInc ''errors'' channel,
                    HttpError (''could not decode form: '' @ Error err) StatusInternalServerError], w)
             | Inr request \<Rightarrow>
                 (let browser = ImageProcessorRequest.Kind request;
                      browser = (if utils_IsEmpty env browser then ''chrome'' else browser)
                  in case (case browser of _ \<Rightarrow> ImageProcessor_chromeImage env p request w) of
                       (Inl err, w') \<Rightarrow>
                         (Some err,
                          effects @ [CounterInc ''errors'' channel,
                            HttpError (''could not make image: '' @ Error err) StatusInternalServerError], w')
                     | (Inr bytes, w') \<Rightarrow>
                         (case written of
                            Some err \<Rightarrow>
                              (Some err,
                               effects @ [ResponseWrite bytes, CounterInc ''errors'' channel,
                                 HttpError (''could not write response: '' @ Error err)
                                   StatusInternalServerError], w')
                          | None \<Rightarrow> (None, effects @ [ResponseWrite bytes], w')))))"

section \<open>Kinds of steps\<close>

fun is_output_capture :: "'v Action \<Rightarrow> bool" where
  "is_output_capture (PrintToPDF b) = True"
| "is_output_capture (FullScreenshot q) = True"
| "is_output_capture CaptureScreenshot = True"
| "is_output_capture a = False"

fun is_header_step :: "'v Action \<Rightarrow> bool" where
  "is_header_step NetworkEnable = True"
| "is_header_step (SetExtraHTTPHeaders h) = True"
| "is_header_step a = False"

fun is_navigation_step :: "'v Action \<Rightarrow> bool" where
  "is_navigation_step (Navigate u) = True"
| "is_navigation_step (Evaluate s) = True"
| "is_navigation_step (Sleep d) = True"
| "is_navigation_step Stop = True"
| "is_navigation_step a = False"

section \<open>Sample inputs\<close>

text \<open>
  A browser with the viewport and timeout of a typical request and the given headers,
  script, delay and output flags.
\<close>

definition sample_browser ::
  "(string, string) fmap \<Rightarrow> string \<Rightarrow> go_int \<Rightarrow> bool \<Rightarrow> bool \<Rightarrow> string ChromeBrowser" where
  "sample_browser hdrs js delay pdf full =
    \<lparr>ChromeBrowser.options =
      \<lparr>ChromeBrowserOptions.Width = 1024,
       ChromeBrowserOptions.Height = 768,
       ChromeBrowserOptions.UserAgent = ''webrender'',
       ChromeBrowserOptions.JsCode = js,
       ChromeBrowserOptions.Timeout = 5,
       ChromeBrowserOptions.Delay = delay,
       ChromeBrowserOptions.FullPage = full,
       ChromeBrowserOptions.Path = [],
       ChromeBrowserOptions.Proxy = [],
       ChromeBrowserOptions.Headers = [],
       ChromeBrowserOptions.HeadersMap = hdrs,
       ChromeBrowserOptions.ScreenshotCodes = [],
       ChromeBrowserOptions.AsPDF = pdf\<rparr>\<rparr>"

definition sample_processor_browser ::
  "(string, string) fmap \<Rightarrow> string \<Rightarrow> go_int \<Rightarrow> bool \<Rightarrow> bool \<Rightarrow> string ChromeProcessor" where
  "sample_processor_browser hdrs js delay pdf full =
    \<lparr>ChromeProcessor.options =
      \<lparr>ChromeProcessorOptions.Width = 1024,
       ChromeProcessorOptions.Height = 768,
       ChromeProcessorOptions.UserAgent = ''webrender'',
       ChromeProcessorOptions.JsCode = js,
       ChromeProcessorOptions.Timeout = 5,
       ChromeProcessorOptions.Delay = delay,
       ChromeProcessorOptions.FullPage = full,
       ChromeProcessorOptions.Path = [],
       ChromeProcessorOptions.Proxy = [],
       ChromeProcessorOptions.Headers = [],
       ChromeProcessorOptions.HeadersMap = hdrs,
       ChromeProcessorOptions.ScreenshotCodes = [],
       ChromeProcessorOptions.AsPDF = pdf\<rparr>\<rparr>"

definition sample_headers :: "(string, string) fmap" where
  "sample_headers = fmupd ''X-Token'' ''abc'' fmempty"

text \<open>The processor with the numeric defaults of \<open>cmd/root.go\<close> and a given PDF default.\<close>

definition sample_processor :: "bool \<Rightarrow> ImageProcessor" where
  "sample_processor pdf =
    \<lparr>ImageProcessor.options =
      \<lparr>ImageProcessorOptions.Width = 1920,
       ImageProcessorOptions.Height = 1280,
       ImageProcessorOptions.UserAgent = ''webrender'',
       ImageProcessorOptions.Timeout = 10,
       ImageProcessorOptions.Delay = 3,
       ImageProcessorOptions.BrowserPath = [],
       ImageProcessorOptions.BrowserKind = ''chrome'',
       ImageProcessorOptions.AsPDF = pdf\<rparr>\<rparr>"

text \<open>A request that names only its URL and kind: every other field has its zero value.\<close>

definition sample_request :: "string \<Rightarrow> string ImageProcessorRequest" where
  "sample_request kind =
    \<lparr>ImageProcessorRequest.URL = ''https://example.com'',
     ImageProcessorRequest.Kind = kind,
     ImageProcessorRequest.Width = 0,
     ImageProcessorRequest.Height = 0,
     ImageProcessorRequest.UserAgent = [],
     ImageProcessorRequest.Timeout = 0,
     ImageProcessorRequest.Delay = 0,
     ImageProcessorRequest.AsPDF = False,
     ImageProcessorRequest.Headers = fmempty\<rparr>"

text \<open>
  A world that is only a clock. A run with no tasks succeeds; a run that navigates ends
  with \<open>nav\<close> (nil or an error); a run that only captures ends with \<open>cap\<close>. A run that
  succeeds leaves two bytes and a document in the buffers.
\<close>

definition sample_env :: "error option \<Rightarrow> error option \<Rightarrow> (string, int) chromedp" where
  "sample_env nav cap =
    \<lparr>time_Now = (\<lambda>w. w),
     Run = (\<lambda>ctx tasks b d w.
        if tasks = [] then (None, b, d, w + 1)
        else (case (if filter is_navigation_step tasks \<noteq> [] then nav else cap) of
                Some e \<Rightarrow> (Some e, b, d, w + 1)
              | None \<Rightarrow> (None, [137, 80], ''<html></html>'', w + 1))),
     cancel = (\<lambda>ctx w. w),
     utils_IsEmpty = (\<lambda>s. s = []),
     url_Parse = (\<lambda>s. Inr s)\<rparr>"

section \<open>Properties of the pipeline builder\<close>

lemma len_map_pos: "0 < len_map m \<longleftrightarrow> m \<noteq> fmempty"
proof -
  have "fmdom m = {||} \<longleftrightarrow> m = fmempty"
    by (metis fmdom_empty fmrestrict_fset_dom fmrestrict_fset_null)
  moreover have "0 < fcard (fmdom m) \<longleftrightarrow> fmdom m \<noteq> {||}"
    using fcard_0_eq [of "fmdom m"] by (auto simp: fcard_fempty)
  ultimately show ?thesis
    by (simp add: len_map_def)
qed

text \<open>
  The duration of a \<open>Sleep\<close> step, and of a timeout, is a number of seconds times
  \<open>time.Second\<close> in 64 bits: the number of seconds in nanoseconds up to 9223372036
  seconds, and wrapped around beyond.
\<close>

lemma Sleep_duration_seconds:
  assumes "0 <s n" and "n \<le>s 9223372036"
  shows "sint (time_Duration n * Second) = sint n * 1000000000"
proof -
  have pos: "0 < sint n"
    using assms(1) by (simp add: word_sless_alt)
  have le: "sint n \<le> 9223372036"
    using assms(2) by (simp add: word_sle_eq)
  have "sint (n * 1000000000) = signed_take_bit 63 (sint n * sint (1000000000 :: 64 word))"
    by (simp add: sint_word_ariths)
  also have "sint (1000000000 :: 64 word) = 1000000000"
    by simp
  also have "signed_take_bit 63 (sint n * 1000000000) = sint n * 1000000000"
    using pos le by (intro signed_take_bit_int_eq_self) simp_all
  finally show ?thesis
    by (simp add: time_Duration_def Second_def)
qed

lemma Sleep_duration_wraps: "sint (time_Duration 9223372037 * Second) = - 9223372036709551616"
  by (simp add: time_Duration_def Second_def)

lemma ChromeBrowser_buildTasks_steps:
  "ChromeBrowser_buildTasks c url nav =
     (if ChromeBrowserOptions.HeadersMap (ChromeBrowser.options c) \<noteq> fmempty
      then [NetworkEnable, SetExtraHTTPHeaders (ChromeBrowserOptions.HeadersMap (ChromeBrowser.options c))]
      else [])
     @ (if nav
        then [Navigate (url_String url)]
           @ (if ChromeBrowserOptions.JsCode (ChromeBrowser.options c) \<noteq> [] then [Evaluate (ChromeBrowserOptions.JsCode (ChromeBrowser.options c))] else [])
           @ (if 0 <s ChromeBrowserOptions.Delay (ChromeBrowser.options c)
              then [Sleep (time_Duration (ChromeBrowserOptions.Delay (ChromeBrowser.options c)) * Second)]
              else [])
           @ [Stop]
        else [])
     @ [OuterHTML '':root'' ByQueryAll,
        (if ChromeBrowserOptions.AsPDF (ChromeBrowser.options c) then PrintToPDF True
        else if ChromeBrowserOptions.FullPage (ChromeBrowser.options c) then FullScreenshot 100
        else CaptureScreenshot)]"
  by (simp add: ChromeBrowser_buildTasks_def Let_def len_map_pos)

lemma ChromeProcessor_buildTasks_steps:
  "ChromeProcessor_buildTasks p url nav =
     (if ChromeProcessorOptions.HeadersMap (ChromeProcessor.options p) \<noteq> fmempty
      then [NetworkEnable, SetExtraHTTPHeaders (ChromeProcessorOptions.HeadersMap (ChromeProcessor.options p))]
      else [])
     @ (if nav
        then [Navigate (url_String url)]
           @ (if ChromeProcessorOptions.JsCode (ChromeProcessor.options p) \<noteq> [] then [Evaluate (ChromeProcessorOptions.JsCode (ChromeProcessor.options p))] else [])
           @ (if 0 <s ChromeProcessorOptions.Delay (ChromeProcessor.options p)
              then [Sleep (time_Duration (ChromeProcessorOptions.Delay (ChromeProcessor.options p)) * Second)]
              else [])
           @ [Stop]
        else [])
     @ [OuterHTML '':root'' ByQueryAll,
        (if ChromeProcessorOptions.AsPDF (ChromeProcessor.options p) then PrintToPDF True
        else if ChromeProcessorOptions.FullPage (ChromeProcessor.options p) then FullScreenshot 100
        else CaptureScreenshot)]"
  by (simp add: ChromeProcessor_buildTasks_def Let_def len_map_pos)

text \<open>
  Claim C2. Whatever the options and the navigate flag, the pipeline is some steps, none
  of them an output capture, followed by exactly one output-capture step: the PDF print
  with header and footer when \<open>AsPDF\<close> is set, whatever \<open>FullPage\<close> is; otherwise the
  full-page screenshot when \<open>FullPage\<close> is set; otherwise the viewport screenshot. It
  holds of both builders.
\<close>

theorem buildTasks_output_capture_precedence:
  "(\<exists>pre. ChromeBrowser_buildTasks c url nav =
        pre @ [(if ChromeBrowserOptions.AsPDF (ChromeBrowser.options c) then PrintToPDF True
               else if ChromeBrowserOptions.FullPage (ChromeBrowser.options c) then FullScreenshot 100
               else CaptureScreenshot)]
      \<and> filter is_output_capture pre = [])
   \<and> (\<exists>pre. ChromeProcessor_buildTasks p url nav =
        pre @ [(if ChromeProcessorOptions.AsPDF (ChromeProcessor.options p) then PrintToPDF True
               else if ChromeProcessorOptions.FullPage (ChromeProcessor.options p) then FullScreenshot 100
               else CaptureScreenshot)]
      \<and> filter is_output_capture pre = [])"
  by (simp add: ChromeBrowser_buildTasks_steps ChromeProcessor_buildTasks_steps)

theorem buildTasks_output_capture_precedence_witness:
  "(\<exists>pre. ChromeBrowser_buildTasks (sample_browser fmempty [] 0 True True) ''https://example.com'' True =
        pre @ [PrintToPDF True] \<and> filter is_output_capture pre = [])
   \<and> (\<exists>pre. ChromeProcessor_buildTasks (sample_processor_browser fmempty [] 0 False False)
          ''https://example.com'' False =
        pre @ [CaptureScreenshot] \<and> filter is_output_capture pre = [])"
  using buildTasks_output_capture_precedence
    [where c = "sample_browser fmempty [] 0 True True" and url = "''https://example.com''" and nav = True
       and p = "sample_processor_browser fmempty [] 0 False True"]
    buildTasks_output_capture_precedence
    [where p = "sample_processor_browser fmempty [] 0 False False" and url = "''https://example.com''"
       and nav = False and c = "sample_browser fmempty [] 0 True True"]
  by (simp add: sample_browser_def sample_processor_browser_def)

lemma ChromeBrowser_navigation_steps:
  "(\<exists>hdr cap. list_all is_header_step hdr \<and> is_output_capture cap \<and>
       ChromeBrowser_buildTasks c url True =
         hdr @ [Navigate (url_String url)]
         @ (if ChromeBrowserOptions.JsCode (ChromeBrowser.options c) \<noteq> [] then [Evaluate (ChromeBrowserOptions.JsCode (ChromeBrowser.options c))] else [])
         @ (if 0 <s ChromeBrowserOptions.Delay (ChromeBrowser.options c)
            then [Sleep (time_Duration (ChromeBrowserOptions.Delay (ChromeBrowser.options c)) * Second)]
            else [])
         @ [Stop, OuterHTML '':root'' ByQueryAll, cap])
   \<and> filter is_navigation_step (ChromeBrowser_buildTasks c url False) = []
   \<and> (\<exists>pre cap. is_output_capture cap \<and>
         ChromeBrowser_buildTasks c url nav = pre @ [OuterHTML '':root'' ByQueryAll, cap])"
proof (intro conjI)
  let ?hdr = "(if ChromeBrowserOptions.HeadersMap (ChromeBrowser.options c) \<noteq> fmempty
      then [NetworkEnable, SetExtraHTTPHeaders (ChromeBrowserOptions.HeadersMap (ChromeBrowser.options c))]
      else [])"
  let ?cap = "(if ChromeBrowserOptions.AsPDF (ChromeBrowser.options c) then PrintToPDF True
        else if ChromeBrowserOptions.FullPage (ChromeBrowser.options c) then FullScreenshot 100
        else CaptureScreenshot)"
  have hdr: "list_all is_header_step ?hdr"
    by simp
  have cap: "is_output_capture ?cap"
    by simp
  have "ChromeBrowser_buildTasks c url True =
         ?hdr @ [Navigate (url_String url)]
         @ (if ChromeBrowserOptions.JsCode (ChromeBrowser.options c) \<noteq> [] then [Evaluate (ChromeBrowserOptions.JsCode (ChromeBrowser.options c))] else [])
         @ (if 0 <s ChromeBrowserOptions.Delay (ChromeBrowser.options c)
            then [Sleep (time_Duration (ChromeBrowserOptions.Delay (ChromeBrowser.options c)) * Second)]
            else [])
         @ [Stop, OuterHTML '':root'' ByQueryAll, ?cap]"
    by (simp add: ChromeBrowser_buildTasks_steps)
  with hdr cap show "\<exists>hdr cap. list_all is_header_step hdr \<and> is_output_capture cap \<and>
       ChromeBrowser_buildTasks c url True =
         hdr @ [Navigate (url_String url)]
         @ (if ChromeBrowserOptions.JsCode (ChromeBrowser.options c) \<noteq> [] then [Evaluate (ChromeBrowserOptions.JsCode (ChromeBrowser.options c))] else [])
         @ (if 0 <s ChromeBrowserOptions.Delay (ChromeBrowser.options c)
            then [Sleep (time_Duration (ChromeBrowserOptions.Delay (ChromeBrowser.options c)) * Second)]
            else [])
         @ [Stop, OuterHTML '':root'' ByQueryAll, cap]"
    by blast
  show "filter is_navigation_step (ChromeBrowser_buildTasks c url False) = []"
    by (simp add: ChromeBrowser_buildTasks_steps)
  have "ChromeBrowser_buildTasks c url nav =
          butlast (butlast (ChromeBrowser_buildTasks c url nav)) @ [OuterHTML '':root'' ByQueryAll, ?cap]"
    by (simp add: ChromeBrowser_buildTasks_steps butlast_append)
  with cap show "\<exists>pre cap. is_output_capture cap \<and>
         ChromeBrowser_buildTasks c url nav = pre @ [OuterHTML '':root'' ByQueryAll, cap]"
    by blast
qed

lemma ChromeProcessor_navigation_steps:
  "(\<exists>hdr cap. list_all is_header_step hdr \<and> is_output_capture cap \<and>
       ChromeProcessor_buildTasks p url True =
         hdr @ [Navigate (url_String url)]
         @ (if ChromeProcessorOptions.JsCode (ChromeProcessor.options p) \<noteq> [] then [Evaluate (ChromeProcessorOptions.JsCode (ChromeProcessor.options p))] else [])
         @ (if 0 <s ChromeProcessorOptions.Delay (ChromeProcessor.options p)
            then [Sleep (time_Duration (ChromeProcessorOptions.Delay (ChromeProcessor.options p)) * Second)]
            else [])
         @ [Stop, OuterHTML '':root'' ByQueryAll, cap])
   \<and> filter is_navigation_step (ChromeProcessor_buildTasks p url False) = []
   \<and> (\<exists>pre cap. is_output_capture cap \<and>
         ChromeProcessor_buildTasks p url nav = pre @ [OuterHTML '':root'' ByQueryAll, cap])"
proof (intro conjI)
  let ?hdr = "(if ChromeProcessorOptions.HeadersMap (ChromeProcessor.options p) \<noteq> fmempty
      then [NetworkEnable, SetExtraHTTPHeaders (ChromeProcessorOptions.HeadersMap (ChromeProcessor.options p))]
      else [])"
  let ?cap = "(if ChromeProcessorOptions.AsPDF (ChromeProcessor.options p) then PrintToPDF True
        else if ChromeProcessorOptions.FullPage (ChromeProcessor.options p) then FullScreenshot 100
        else CaptureScreenshot)"
  have hdr: "list_all is_header_step ?hdr"
    by simp
  have cap: "is_output_capture ?cap"
    by simp
  have "ChromeProcessor_buildTasks p url True =
         ?hdr @ [Navigate (url_String url)]
         @ (if ChromeProcessorOptions.JsCode (ChromeProcessor.options p) \<noteq> [] then [Evaluate (ChromeProcessorOptions.JsCode (ChromeProcessor.options p))] else [])
         @ (if 0 <s ChromeProcessorOptions.Delay (ChromeProcessor.options p)
            then [Sleep (time_Duration (ChromeProcessorOptions.Delay (ChromeProcessor.options p)) * Second)]
            else [])
         @ [Stop, OuterHTML '':root'' ByQueryAll, ?cap]"
    by (simp add: ChromeProcessor_buildTasks_steps)
  with hdr cap show "\<exists>hdr cap. list_all is_header_step hdr \<and> is_output_capture cap \<and>
       ChromeProcessor_buildTasks p url True =
         hdr @ [Navigate (url_String url)]
         @ (if ChromeProcessorOptions.JsCode (ChromeProcessor.options p) \<noteq> [] then [Evaluate (ChromeProcessorOptions.JsCode (ChromeProcessor.options p))] else [])
         @ (if 0 <s ChromeProcessorOptions.Delay (ChromeProcessor.options p)
            then [Sleep (time_Duration (ChromeProcessorOptions.Delay (ChromeProcessor.options p)) * Second)]
            else [])
         @ [Stop, OuterHTML '':root'' ByQueryAll, cap]"
    by blast
  show "filter is_navigation_step (ChromeProcessor_buildTasks p url False) = []"
    by (simp add: ChromeProcessor_buildTasks_steps)
  have "ChromeProcessor_buildTasks p url nav =
          butlast (butlast (ChromeProcessor_buildTasks p url nav)) @ [OuterHTML '':root'' ByQueryAll, ?cap]"
    by (simp add: ChromeProcessor_buildTasks_steps butlast_append)
  with cap show "\<exists>pre cap. is_output_capture cap \<and>
         ChromeProcessor_buildTasks p url nav = pre @ [OuterHTML '':root'' ByQueryAll, cap]"
    by blast
qed

text \<open>
  Claim C3, with the range of the delay. With navigation, the pipeline is header steps only, then
  \<open>Navigate\<close> of the URL, then \<open>Evaluate\<close> of the script exactly when the script is not
  empty, then one \<open>Sleep\<close> step exactly when the delay is positive, then \<open>Stop\<close>, then the
  outer HTML of \<open>:root\<close>, then the output capture. The duration of the \<open>Sleep\<close> step is
  the delay times \<open>time.Second\<close>, computed in 64 bits: for a delay from 1 to 9223372036
  it is the delay in seconds. Without navigation, the pipeline has none of \<open>Navigate\<close>,
  \<open>Evaluate\<close>, \<open>Sleep\<close>, \<open>Stop\<close>. In both cases the step just before the output capture,
  which is last, is the outer HTML of \<open>:root\<close>. It holds of both builders.
\<close>

theorem buildTasks_navigation_block:
  "((\<exists>hdr cap. list_all is_header_step hdr \<and> is_output_capture cap \<and>
       ChromeBrowser_buildTasks c url True =
         hdr @ [Navigate (url_String url)]
         @ (if ChromeBrowserOptions.JsCode (ChromeBrowser.options c) \<noteq> [] then [Evaluate (ChromeBrowserOptions.JsCode (ChromeBrowser.options c))] else [])
         @ (if 0 <s ChromeBrowserOptions.Delay (ChromeBrowser.options c)
            then [Sleep (time_Duration (ChromeBrowserOptions.Delay (ChromeBrowser.options c)) * Second)]
            else [])
         @ [Stop, OuterHTML '':root'' ByQueryAll, cap])
   \<and> (0 <s ChromeBrowserOptions.Delay (ChromeBrowser.options c) \<longrightarrow>
        ChromeBrowserOptions.Delay (ChromeBrowser.options c) \<le>s 9223372036 \<longrightarrow>
        sint (time_Duration (ChromeBrowserOptions.Delay (ChromeBrowser.options c)) * Second) =
          sint (ChromeBrowserOptions.Delay (ChromeBrowser.options c)) * 1000000000)
   \<and> filter is_navigation_step (ChromeBrowser_buildTasks c url False) = []
   \<and> (\<exists>pre cap. is_output_capture cap \<and>
         ChromeBrowser_buildTasks c url nav = pre @ [OuterHTML '':root'' ByQueryAll, cap]))
   \<and> ((\<exists>hdr cap. list_all is_header_step hdr \<and> is_output_capture cap \<and>
       ChromeProcessor_buildTasks p url True =
         hdr @ [Navigate (url_String url)]
         @ (if ChromeProcessorOptions.JsCode (ChromeProcessor.options p) \<noteq> [] then [Evaluate (ChromeProcessorOptions.JsCode (ChromeProcessor.options p))] else [])
         @ (if 0 <s ChromeProcessorOptions.Delay (ChromeProcessor.options p)
            then [Sleep (time_Duration (ChromeProcessorOptions.Delay (ChromeProcessor.options p)) * Second)]
            else [])
         @ [Stop, OuterHTML '':root'' ByQueryAll, cap])
   \<and> (0 <s ChromeProcessorOptions.Delay (ChromeProcessor.options p) \<longrightarrow>
        ChromeProcessorOptions.Delay (ChromeProcessor.options p) \<le>s 9223372036 \<longrightarrow>
        sint (time_Duration (ChromeProcessorOptions.Delay (ChromeProcessor.options p)) * Second) =
          sint (ChromeProcessorOptions.Delay (ChromeProcessor.options p)) * 1000000000)
   \<and> filter is_navigation_step (ChromeProcessor_buildTasks p url False) = []
   \<and> (\<exists>pre cap. is_output_capture cap \<and>
         ChromeProcessor_buildTasks p url nav = pre @ [OuterHTML '':root'' ByQueryAll, cap]))"
  using ChromeBrowser_navigation_steps [of c url nav]
    ChromeProcessor_navigation_steps [of p url nav]
    Sleep_duration_seconds [of "ChromeBrowserOptions.Delay (ChromeBrowser.options c)"]
    Sleep_duration_seconds [of "ChromeProcessorOptions.Delay (ChromeProcessor.options p)"]
  by blast

theorem buildTasks_navigation_block_witness:
  "(\<exists>hdr cap. list_all is_header_step hdr \<and> is_output_capture cap \<and>
      ChromeBrowser_buildTasks (sample_browser sample_headers ''window.scrollTo(0, 0)'' 3 False True)
          ''https://example.com'' True =
        hdr @ [Navigate ''https://example.com'', Evaluate ''window.scrollTo(0, 0)'', Sleep 3000000000,
               Stop, OuterHTML '':root'' ByQueryAll, cap])
   \<and> sint (time_Duration 3 * Second) = 3 * 1000000000
   \<and> filter is_navigation_step
       (ChromeProcessor_buildTasks (sample_processor_browser sample_headers ''window.scrollTo(0, 0)'' 3 False True)
          ''https://example.com'' False) = []"
proof -
  note inst = buildTasks_navigation_block
    [where c = "sample_browser sample_headers ''window.scrollTo(0, 0)'' 3 False True"
       and p = "sample_processor_browser sample_headers ''window.scrollTo(0, 0)'' 3 False True"
       and url = "''https://example.com''" and nav = True]
  have pos: "(0 :: go_int) <s 3" and le: "(3 :: go_int) \<le>s 9223372036"
    by (simp_all add: word_sless_alt word_sle_eq)
  from inst have "sint (time_Duration 3 * Second) = 3 * 1000000000"
    using pos le by (simp add: sample_browser_def)
  moreover from inst have "\<exists>hdr cap. list_all is_header_step hdr \<and> is_output_capture cap \<and>
      ChromeBrowser_buildTasks (sample_browser sample_headers ''window.scrollTo(0, 0)'' 3 False True)
          ''https://example.com'' True =
        hdr @ [Navigate ''https://example.com'', Evaluate ''window.scrollTo(0, 0)'', Sleep 3000000000,
               Stop, OuterHTML '':root'' ByQueryAll, cap]"
    by (simp add: sample_browser_def url_String_def time_Duration_def Second_def word_sless_alt)
  moreover from inst have "filter is_navigation_step
       (ChromeProcessor_buildTasks (sample_processor_browser sample_headers ''window.scrollTo(0, 0)'' 3 False True)
          ''https://example.com'' False) = []"
    by blast
  ultimately show ?thesis
    by blast
qed

text \<open>
  A sleep of the delay in seconds does not hold of every positive delay. At the delay
  9223372037, which is positive, the pipeline has its \<open>Sleep\<close> step, and the duration of
  that step is the wrapped product, a negative number of nanoseconds, not 9223372037
  seconds.
\<close>

theorem buildTasks_Sleep_counterexample:
  "0 <s ChromeBrowserOptions.Delay (ChromeBrowser.options (sample_browser fmempty [] 9223372037 False True))
   \<and> ChromeBrowser_buildTasks (sample_browser fmempty [] 9223372037 False True) ''https://example.com'' True =
       [Navigate ''https://example.com'', Sleep 9223372037000000000, Stop, OuterHTML '':root'' ByQueryAll,
        FullScreenshot 100]
   \<and> sint (9223372037000000000 :: Duration) = - 9223372036709551616
   \<and> sint (9223372037000000000 :: Duration) \<noteq> sint (9223372037 :: go_int) * 1000000000"
  by (simp add: ChromeBrowser_buildTasks_steps sample_browser_def url_String_def time_Duration_def
      Second_def word_sless_alt)

text \<open>
  Claim C4. When the headers map is not empty, the first two steps of the pipeline are
  \<open>network.Enable\<close> and \<open>SetExtraHTTPHeaders\<close> of that map, and the pipeline has no other
  header step. When the map is empty, the pipeline has no header step at all. It holds
  of both builders, with and without navigation.
\<close>

theorem buildTasks_header_steps:
  "(ChromeBrowserOptions.HeadersMap (ChromeBrowser.options c) \<noteq> fmempty \<longrightarrow>
      take 2 (ChromeBrowser_buildTasks c url nav) =
        [NetworkEnable, SetExtraHTTPHeaders (ChromeBrowserOptions.HeadersMap (ChromeBrowser.options c))]
      \<and> filter is_header_step (ChromeBrowser_buildTasks c url nav) =
        [NetworkEnable, SetExtraHTTPHeaders (ChromeBrowserOptions.HeadersMap (ChromeBrowser.options c))])
   \<and> (ChromeBrowserOptions.HeadersMap (ChromeBrowser.options c) = fmempty \<longrightarrow>
      filter is_header_step (ChromeBrowser_buildTasks c url nav) = [])
   \<and> (ChromeProcessorOptions.HeadersMap (ChromeProcessor.options p) \<noteq> fmempty \<longrightarrow>
      take 2 (ChromeProcessor_buildTasks p url nav) =
        [NetworkEnable, SetExtraHTTPHeaders (ChromeProcessorOptions.HeadersMap (ChromeProcessor.options p))]
      \<and> filter is_header_step (ChromeProcessor_buildTasks p url nav) =
        [NetworkEnable, SetExtraHTTPHeaders (ChromeProcessorOptions.HeadersMap (ChromeProcessor.options p))])
   \<and> (ChromeProcessorOptions.HeadersMap (ChromeProcessor.options p) = fmempty \<longrightarrow>
      filter is_header_step (ChromeProcessor_buildTasks p url nav) = [])"
  by (simp add: ChromeBrowser_buildTasks_steps ChromeProcessor_buildTasks_steps)

theorem buildTasks_header_steps_witness:
  "take 2 (ChromeBrowser_buildTasks (sample_browser sample_headers [] 0 False True) ''https://example.com'' True) =
     [NetworkEnable, SetExtraHTTPHeaders sample_headers]
   \<and> filter is_header_step
       (ChromeBrowser_buildTasks (sample_browser fmempty [] 0 False True) ''https://example.com'' True) = []
   \<and> take 2 (ChromeProcessor_buildTasks (sample_processor_browser sample_headers [] 0 False True)
         ''https://example.com'' False) =
     [NetworkEnable, SetExtraHTTPHeaders sample_headers]
   \<and> filter is_header_step
       (ChromeProcessor_buildTasks (sample_processor_browser fmempty [] 0 False True)
          ''https://example.com'' False) = []"
  using buildTasks_header_steps
    [where c = "sample_browser sample_headers [] 0 False True" and url = "''https://example.com''"
       and nav = True and p = "sample_processor_browser fmempty [] 0 False True"]
    buildTasks_header_steps
    [where c = "sample_browser fmempty [] 0 False True" and url = "''https://example.com''"
       and nav = True and p = "sample_processor_browser fmempty [] 0 False True"]
    buildTasks_header_steps
    [where p = "sample_processor_browser sample_headers [] 0 False True" and url = "''https://example.com''"
       and nav = False and c = "sample_browser fmempty [] 0 False True"]
    buildTasks_header_steps
    [where p = "sample_processor_browser fmempty [] 0 False True" and url = "''https://example.com''"
       and nav = False and c = "sample_browser fmempty [] 0 False True"]
  by (simp add: sample_browser_def sample_processor_browser_def sample_headers_def)

text \<open>
  Claim C8. The two builders agree: when the headers map, the script, the delay and the
  two output flags of the processor's options equal those of the browser's options,
  they build the same list of steps for the same URL and navigate flag.
\<close>

theorem buildTasks_duplicates_agree:
  assumes "ChromeProcessorOptions.HeadersMap (ChromeProcessor.options p) = ChromeBrowserOptions.HeadersMap (ChromeBrowser.options c)"
    and "ChromeProcessorOptions.JsCode (ChromeProcessor.options p) = ChromeBrowserOptions.JsCode (ChromeBrowser.options c)"
    and "ChromeProcessorOptions.Delay (ChromeProcessor.options p) = ChromeBrowserOptions.Delay (ChromeBrowser.options c)"
    and "ChromeProcessorOptions.AsPDF (ChromeProcessor.options p) = ChromeBrowserOptions.AsPDF (ChromeBrowser.options c)"
    and "ChromeProcessorOptions.FullPage (ChromeProcessor.options p) = ChromeBrowserOptions.FullPage (ChromeBrowser.options c)"
  shows "ChromeProcessor_buildTasks p url nav = ChromeBrowser_buildTasks c url nav"
  using assms by (simp add: ChromeProcessor_buildTasks_def ChromeBrowser_buildTasks_def Let_def)

theorem buildTasks_duplicates_agree_witness:
  "ChromeProcessor_buildTasks (sample_processor_browser sample_headers ''1+1'' 2 False True)
      ''https://example.com'' True =
   ChromeBrowser_buildTasks (sample_browser sample_headers ''1+1'' 2 False True)
      ''https://example.com'' True"
  by (rule buildTasks_duplicates_agree)
    (simp_all add: sample_browser_def sample_processor_browser_def)

section \<open>Properties of the two runs\<close>

lemma logged_Run:
  "Run (logged env) ctx tasks b d (w, log) =
     (case Run env ctx tasks b d w of
        (err, b', d', w') \<Rightarrow> (err, b', d', (w', log @ [(ctx, tasks)])))"
  by (simp add: logged_def)

lemma logged_time_Now: "time_Now (logged env) (w, log) = time_Now env w"
  by (simp add: logged_def)

lemma logged_cancel: "cancel (logged env) ctx (w, log) = (cancel env ctx w, log)"
  by (simp add: logged_def)

lemma logged_run_deferred:
  "run_deferred (logged env) ctxs (w, log) = (run_deferred env ctxs w, log)"
  by (induction ctxs arbitrary: w) (simp_all add: run_deferred_def logged_cancel)

lemmas logged_simps = logged_Run logged_time_Now logged_cancel logged_run_deferred


lemma ChromeBrowser_Image_no_fallback:
  assumes "Run env (ChromeBrowser_browserCtx c) [] [] [] w0 = (None, b1, d1, w1)"
    and "Run env (context_WithTimeout (ChromeBrowser_browserCtx c) (ChromeBrowser_timeout c) (time_Now env w0))
        (ChromeBrowser_buildTasks c url True) [] [] w1 = (err, b2, d2, w2)"
    and "\<not> errors_Is err DeadlineExceeded"
  shows "fst (ChromeBrowser_Image env c url w0) =
           (case err of None \<Rightarrow> Inr \<lparr>ChromeBrowserImage.Data = b2, ChromeBrowserImage.DOM = d2\<rparr> | Some e' \<Rightarrow> Inl e')"
    and "snd (snd (ChromeBrowser_Image (logged env) c url (w0, []))) =
         [(ChromeBrowser_browserCtx c, []),
          (context_WithTimeout (ChromeBrowser_browserCtx c) (ChromeBrowser_timeout c) (time_Now env w0),
           ChromeBrowser_buildTasks c url True)]"
  using assms
  by (simp_all add: ChromeBrowser_Image_def Let_def logged_simps split: option.split)


lemma ChromeProcessor_Screenshot_no_fallback:
  assumes "Run env (ChromeProcessor_browserCtx p) [] [] [] w0 = (None, b1, d1, w1)"
    and "Run env (context_WithTimeout (ChromeProcessor_browserCtx p) (ChromeProcessor_timeout p) (time_Now env w0))
        (ChromeProcessor_buildTasks p url True) [] [] w1 = (err, b2, d2, w2)"
    and "\<not> errors_Is err DeadlineExceeded"
  shows "fst (ChromeProcessor_Screenshot env p url w0) =
           (case err of None \<Rightarrow> Inr \<lparr>ChromeScreenshot.data = b2, ChromeScreenshot.dom = d2\<rparr> | Some e' \<Rightarrow> Inl e')"
    and "snd (snd (ChromeProcessor_Screenshot (logged env) p url (w0, []))) =
         [(ChromeProcessor_browserCtx p, []),
          (context_WithTimeout (ChromeProcessor_browserCtx p) (ChromeProcessor_timeout p) (time_Now env w0),
           ChromeProcessor_buildTasks p url True)]"
  using assms
  by (simp_all add: ChromeProcessor_Screenshot_def Let_def logged_simps split: option.split)



text \<open>
  Claim C5. Let the browser start, and let the primary run end with \<open>err\<close>, which is nil
  or an error that neither is nor wraps the deadline-exceeded error. Then the calls of
  \<open>Run\<close> are exactly two, the start of the browser and the primary run: there is no
  fallback run and no retry. An error is returned as it is; with no error the result
  holds what the buffers hold after the primary run. It holds of \<open>ChromeBrowser.Image\<close>
  and of \<open>ChromeProcessor.Screenshot\<close>.
\<close>

theorem render_other_outcome_no_fallback:
  assumes "\<not> errors_Is err DeadlineExceeded"
  shows "(Run env (ChromeBrowser_browserCtx c) [] [] [] w0 = (None, b1, d1, w1) \<longrightarrow>
      Run env (context_WithTimeout (ChromeBrowser_browserCtx c) (ChromeBrowser_timeout c) (time_Now env w0))
        (ChromeBrowser_buildTasks c url True) [] [] w1 = (err, b2, d2, w2) \<longrightarrow>
      fst (ChromeBrowser_Image env c url w0) =
        (case err of None \<Rightarrow> Inr \<lparr>ChromeBrowserImage.Data = b2, ChromeBrowserImage.DOM = d2\<rparr> | Some e' \<Rightarrow> Inl e')
      \<and> snd (snd (ChromeBrowser_Image (logged env) c url (w0, []))) =
         [(ChromeBrowser_browserCtx c, []),
          (context_WithTimeout (ChromeBrowser_browserCtx c) (ChromeBrowser_timeout c) (time_Now env w0),
           ChromeBrowser_buildTasks c url True)])
   \<and> (Run env (ChromeProcessor_browserCtx p) [] [] [] w0 = (None, b1, d1, w1) \<longrightarrow>
      Run env (context_WithTimeout (ChromeProcessor_browserCtx p) (ChromeProcessor_timeout p) (time_Now env w0))
        (ChromeProcessor_buildTasks p url True) [] [] w1 = (err, b2, d2, w2) \<longrightarrow>
      fst (ChromeProcessor_Screenshot env p url w0) =
        (case err of None \<Rightarrow> Inr \<lparr>ChromeScreenshot.data = b2, ChromeScreenshot.dom = d2\<rparr> | Some e' \<Rightarrow> Inl e')
      \<and> snd (snd (ChromeProcessor_Screenshot (logged env) p url (w0, []))) =
         [(ChromeProcessor_browserCtx p, []),
          (context_WithTimeout (ChromeProcessor_browserCtx p) (ChromeProcessor_timeout p) (time_Now env w0),
           ChromeProcessor_buildTasks p url True)])"
  using assms ChromeBrowser_Image_no_fallback [of env c w0 b1 d1 w1 url err b2 d2 w2]
    ChromeProcessor_Screenshot_no_fallback [of env p w0 b1 d1 w1 url err b2 d2 w2]
  by blast

theorem render_other_outcome_no_fallback_witness:
  "fst (ChromeBrowser_Image (sample_env (Some (ErrorString ''net::ERR_NAME_NOT_RESOLVED'')) None)
          (sample_browser fmempty [] 0 False True) ''https://nowhere.example'' 0) =
     Inl (ErrorString ''net::ERR_NAME_NOT_RESOLVED'')
   \<and> length (snd (snd (ChromeBrowser_Image
          (logged (sample_env (Some (ErrorString ''net::ERR_NAME_NOT_RESOLVED'')) None))
          (sample_browser fmempty [] 0 False True) ''https://nowhere.example'' (0, [])))) = 2
   \<and> fst (ChromeProcessor_Screenshot (sample_env (Some Canceled) None)
          (sample_processor_browser fmempty [] 0 False True) ''https://nowhere.example'' 0) =
     Inl Canceled"
proof -
  let ?url = "''https://nowhere.example''"
  let ?c = "sample_browser fmempty [] 0 False True"
  let ?p = "sample_processor_browser fmempty [] 0 False True"
  let ?e = "ErrorString ''net::ERR_NAME_NOT_RESOLVED''"
  let ?env = "sample_env (Some ?e) None"
  let ?env' = "sample_env (Some Canceled) None"
  have other: "\<not> errors_Is (Some ?e) DeadlineExceeded"
    by (simp add: errors_Is_def)
  have launch: "Run ?env (ChromeBrowser_browserCtx ?c) [] [] [] 0 = (None, [], [], 1)"
    by (simp add: sample_env_def)
  have primary: "Run ?env
      (context_WithTimeout (ChromeBrowser_browserCtx ?c) (ChromeBrowser_timeout ?c) (time_Now ?env 0))
      (ChromeBrowser_buildTasks ?c ?url True) [] [] 1 = (Some ?e, [], [], 2)"
    by (simp add: sample_env_def ChromeBrowser_buildTasks_steps)
  note browser = render_other_outcome_no_fallback [OF other, THEN conjunct1, rule_format, OF launch primary]
  have other': "\<not> errors_Is (Some Canceled) DeadlineExceeded"
    by (simp add: errors_Is_def)
  have launch': "Run ?env' (ChromeProcessor_browserCtx ?p) [] [] [] 0 = (None, [], [], 1)"
    by (simp add: sample_env_def)
  have primary': "Run ?env'
      (context_WithTimeout (ChromeProcessor_browserCtx ?p) (ChromeProcessor_timeout ?p) (time_Now ?env' 0))
      (ChromeProcessor_buildTasks ?p ?url True) [] [] 1 = (Some Canceled, [], [], 2)"
    by (simp add: sample_env_def ChromeProcessor_buildTasks_steps)
  note processor = render_other_outcome_no_fallback [OF other', THEN conjunct2, rule_format, OF launch' primary']
  from browser processor show ?thesis
    by simp
qed

section \<open>Properties of the image processor\<close>

lemma chromeImage_options_logged: "chromeImage_options (logged env) p r = chromeImage_options env p r"
  by (simp add: chromeImage_options_def logged_def)

lemma chromeImage_options_request_only:
  "ChromeBrowserOptions.AsPDF (chromeImage_options env p r) = ImageProcessorRequest.AsPDF r"
  "ChromeBrowserOptions.FullPage (chromeImage_options env p r) = True"
  "ChromeBrowserOptions.JsCode (chromeImage_options env p r) = []"
  "ChromeBrowserOptions.HeadersMap (chromeImage_options env p r) = ImageProcessorRequest.Headers r"
  by (simp_all add: chromeImage_options_def Let_def)

text \<open>
  The five fields \<open>chromeImage\<close> does take from the configured defaults: a zero width,
  height, timeout or delay, and a user agent that \<open>utils.IsEmpty\<close> accepts.
\<close>

lemma chromeImage_options_defaults:
  "ImageProcessorRequest.Width r = 0 \<Longrightarrow>
     ChromeBrowserOptions.Width (chromeImage_options env p r) =
       ImageProcessorOptions.Width (ImageProcessor.options p)"
  "ImageProcessorRequest.Height r = 0 \<Longrightarrow>
     ChromeBrowserOptions.Height (chromeImage_options env p r) =
       ImageProcessorOptions.Height (ImageProcessor.options p)"
  "ImageProcessorRequest.Timeout r = 0 \<Longrightarrow>
     ChromeBrowserOptions.Timeout (chromeImage_options env p r) =
       ImageProcessorOptions.Timeout (ImageProcessor.options p)"
  "ImageProcessorRequest.Delay r = 0 \<Longrightarrow>
     ChromeBrowserOptions.Delay (chromeImage_options env p r) =
       ImageProcessorOptions.Delay (ImageProcessor.options p)"
  "utils_IsEmpty env (ImageProcessorRequest.UserAgent r) \<Longrightarrow>
     ChromeBrowserOptions.UserAgent (chromeImage_options env p r) =
       ImageProcessorOptions.UserAgent (ImageProcessor.options p)"
  by (simp_all add: chromeImage_options_def Let_def)

lemma ChromeBrowser_Image_log_tasks:
  "list_all (\<lambda>(ctx, tasks). tasks = [] \<or> tasks = ChromeBrowser_buildTasks c url True
        \<or> tasks = ChromeBrowser_buildTasks c url False)
     (snd (snd (ChromeBrowser_Image (logged env) c url (w, []))))"
  by (simp add: ChromeBrowser_Image_def Let_def logged_simps split: prod.split option.split)

lemma snd_case_sum_pair:
  "snd (case x of (Inl err, w') \<Rightarrow> (Inl err, w') | (Inr img, w') \<Rightarrow> (Inr (g img), w')) = snd x"
  by (cases x; cases "fst x") auto

lemma chromeImage_log:
  "snd (snd (ImageProcessor_chromeImage (logged env) p r (w, []))) =
     (case url_Parse env (ImageProcessorRequest.URL r) of
        Inl err \<Rightarrow> []
      | Inr u \<Rightarrow> snd (snd (ChromeBrowser_Image (logged env)
                   (NewChromeBrowser (chromeImage_options env p r)) u (w, []))))"
  by (simp add: ImageProcessor_chromeImage_def Let_def snd_case_sum_pair chromeImage_options_logged
      logged_def [of env, THEN arg_cong [of _ _ url_Parse]] split: sum.split)

lemma chromeImage_log_tasks:
  "list_all (\<lambda>(ctx, tasks). tasks = []
        \<or> (\<exists>u nav. tasks = ChromeBrowser_buildTasks (NewChromeBrowser (chromeImage_options env p r)) u nav))
     (snd (snd (ImageProcessor_chromeImage (logged env) p r (w, []))))"
proof (cases "url_Parse env (ImageProcessorRequest.URL r)")
  case (Inl err)
  then show ?thesis
    by (simp add: chromeImage_log)
next
  case (Inr u)
  let ?c = "NewChromeBrowser (chromeImage_options env p r)"
  have "list_all (\<lambda>(ctx, tasks). tasks = [] \<or> tasks = ChromeBrowser_buildTasks ?c u True
        \<or> tasks = ChromeBrowser_buildTasks ?c u False)
     (snd (snd (ChromeBrowser_Image (logged env) ?c u (w, []))))"
    by (rule ChromeBrowser_Image_log_tasks)
  then show ?thesis
    unfolding chromeImage_log Inr by (auto simp: list_all_iff)
qed

lemma HandleHttpRequest_log:
  "snd (snd (snd (ImageProcessor_HandleHttpRequest (logged env) p path parsed (Inr r) written (w, [])))) =
     (case parsed of
        Some err \<Rightarrow> []
      | None \<Rightarrow> snd (snd (ImageProcessor_chromeImage (logged env) p r (w, []))))"
  by (simp add: ImageProcessor_HandleHttpRequest_def Let_def split: option.split prod.split sum.split)

lemma HandleHttpRequest_log_tasks:
  "list_all (\<lambda>(ctx, tasks). tasks = []
        \<or> (\<exists>u nav. tasks = ChromeBrowser_buildTasks (NewChromeBrowser (chromeImage_options env p r)) u nav))
     (snd (snd (snd (ImageProcessor_HandleHttpRequest (logged env) p path parsed (Inr r) written (w, [])))))"
  using chromeImage_log_tasks [of env p r w]
  by (simp add: HandleHttpRequest_log split: option.split)

lemma chromeImage_tasks_steps:
  "ChromeBrowser_buildTasks (NewChromeBrowser (chromeImage_options env p r)) url nav =
     (if ImageProcessorRequest.Headers r \<noteq> fmempty
      then [NetworkEnable, SetExtraHTTPHeaders (ImageProcessorRequest.Headers r)] else [])
     @ (if nav
        then [Navigate (url_String url)]
           @ (if 0 <s ChromeBrowserOptions.Delay (chromeImage_options env p r)
              then [Sleep (time_Duration (ChromeBrowserOptions.Delay (chromeImage_options env p r)) * Second)]
              else [])
           @ [Stop]
        else [])
     @ [OuterHTML '':root'' ByQueryAll,
        if ImageProcessorRequest.AsPDF r then PrintToPDF True else FullScreenshot 100]"
  by (simp add: ChromeBrowser_buildTasks_steps NewChromeBrowser_def chromeImage_options_request_only)

text \<open>
  Claim C6, at an input where the code departs from it. The processor is configured with
  the PDF default on; the request names no \<open>asPDF\<close> field, so it decodes to false. The
  options built have \<open>AsPDF\<close> false, and the pipeline ends with the full-page screenshot,
  not the PDF print: the configured default is not read. The width, height, timeout,
  delay and user agent of the same request do come from the configured defaults.
\<close>

theorem chromeImage_AsPDF_default_unused:
  "ImageProcessorOptions.AsPDF (ImageProcessor.options (sample_processor True)) = True
   \<and> ImageProcessorRequest.AsPDF (sample_request ''chrome'') = False
   \<and> chromeImage_options (sample_env None None) (sample_processor True) (sample_request ''chrome'') =
       \<lparr>ChromeBrowserOptions.Width = 1920,
        ChromeBrowserOptions.Height = 1280,
        ChromeBrowserOptions.UserAgent = ''webrender'',
        ChromeBrowserOptions.JsCode = [],
        ChromeBrowserOptions.Timeout = 10,
        ChromeBrowserOptions.Delay = 3,
        ChromeBrowserOptions.FullPage = True,
        ChromeBrowserOptions.Path = [],
        ChromeBrowserOptions.Proxy = [],
        ChromeBrowserOptions.Headers = [],
        ChromeBrowserOptions.HeadersMap = fmempty,
        ChromeBrowserOptions.ScreenshotCodes = [],
        ChromeBrowserOptions.AsPDF = False\<rparr>
   \<and> ChromeBrowser_buildTasks
         (NewChromeBrowser
            (chromeImage_options (sample_env None None) (sample_processor True) (sample_request ''chrome'')))
         ''https://example.com'' True =
       [Navigate ''https://example.com'', Sleep 3000000000, Stop, OuterHTML '':root'' ByQueryAll,
        FullScreenshot 100]"
  by (simp add: chromeImage_options_def sample_processor_def sample_request_def sample_env_def
      ChromeBrowser_buildTasks_steps NewChromeBrowser_def url_String_def time_Duration_def Second_def
      word_sless_alt)

lemma chromeImage_Kind_unread:
  "ImageProcessor_chromeImage env p (r\<lparr>ImageProcessorRequest.Kind := kind\<rparr>) w =
   ImageProcessor_chromeImage env p r w"
  by (simp add: ImageProcessor_chromeImage_def chromeImage_options_def)

text \<open>
  Claim C7. Once the form is decoded, the handler does the same for every value of the
  \<open>kind\<close> field, empty, \<open>chrome\<close> or any other: the same returned error, the same
  effects, the same calls. What it does is \<open>chromeImage\<close>: the error returned is the
  error of \<open>chromeImage\<close> if it has one, and otherwise the outcome of writing the
  response. No error comes from the kind.
\<close>

theorem HandleHttpRequest_kind_irrelevant:
  "ImageProcessor_HandleHttpRequest env p path parsed
       (Inr (r\<lparr>ImageProcessorRequest.Kind := kind\<rparr>)) written w =
     ImageProcessor_HandleHttpRequest env p path parsed (Inr r) written w
   \<and> fst (ImageProcessor_HandleHttpRequest env p path None
       (Inr (r\<lparr>ImageProcessorRequest.Kind := kind\<rparr>)) written w) =
     (case fst (ImageProcessor_chromeImage env p r w) of Inl err \<Rightarrow> Some err | Inr bytes \<Rightarrow> written)"
  by (simp add: ImageProcessor_HandleHttpRequest_def Let_def chromeImage_Kind_unread
      split: prod.split sum.split option.split)

theorem HandleHttpRequest_kind_irrelevant_witness:
  "ImageProcessor_HandleHttpRequest (sample_env None None) (sample_processor False) ''/image'' None
       (Inr (sample_request ''no such engine'')) None 0 =
     ImageProcessor_HandleHttpRequest (sample_env None None) (sample_processor False) ''/image'' None
       (Inr (sample_request [])) None 0
   \<and> fst (ImageProcessor_HandleHttpRequest (sample_env None None) (sample_processor False) ''/image'' None
       (Inr (sample_request ''no such engine'')) None 0) = None"
proof -
  have kind: "(sample_request [])\<lparr>ImageProcessorRequest.Kind := ''no such engine''\<rparr> =
      sample_request ''no such engine''"
    by (simp add: sample_request_def)
  have image: "fst (ImageProcessor_chromeImage (sample_env None None) (sample_processor False)
      (sample_request []) 0) = Inr [137, 80]"
    by (simp add: ImageProcessor_chromeImage_def ChromeBrowser_Image_def Let_def sample_env_def
        chromeImage_tasks_steps errors_Is_def)
  note inst = HandleHttpRequest_kind_irrelevant
    [where env = "sample_env None None" and p = "sample_processor False" and path = "''/image''"
       and parsed = None and r = "sample_request []" and kind = "''no such engine''"
       and written = None and w = 0]
  from inst [THEN conjunct1] inst [THEN conjunct2] show ?thesis
    by (simp add: kind image)
qed



text \<open>
  Claim C10. The options \<open>chromeImage\<close> builds have an empty script, whatever the request
  and the configuration; the request has no field for one. So the pipeline built from
  them has no \<open>Evaluate\<close> step, and no run the handler makes for a decoded request has an
  \<open>Evaluate\<close> step among its tasks.
\<close>

theorem chromeImage_never_evaluates_script:
  "ChromeBrowserOptions.JsCode (chromeImage_options env p r) = []
   \<and> Evaluate s \<notin> set (ChromeBrowser_buildTasks (NewChromeBrowser (chromeImage_options env p r)) url nav)
   \<and> list_all (\<lambda>(ctx, tasks). \<forall>s. Evaluate s \<notin> set tasks)
       (snd (snd (snd (ImageProcessor_HandleHttpRequest (logged env) p path parsed (Inr r) written
          (w, [])))))"
proof (intro conjI)
  show "ChromeBrowserOptions.JsCode (chromeImage_options env p r) = []"
    by (simp add: chromeImage_options_request_only)
  have none: "Evaluate s' \<notin> set (ChromeBrowser_buildTasks (NewChromeBrowser (chromeImage_options env p r)) u n)"
    for s' u n
    by (simp add: chromeImage_tasks_steps)
  then show "Evaluate s \<notin> set (ChromeBrowser_buildTasks (NewChromeBrowser (chromeImage_options env p r)) url nav)" .
  from none HandleHttpRequest_log_tasks [of env p r path parsed written w]
  show "list_all (\<lambda>(ctx, tasks). \<forall>s. Evaluate s \<notin> set tasks)
       (snd (snd (snd (ImageProcessor_HandleHttpRequest (logged env) p path parsed (Inr r) written
          (w, [])))))"
    by (auto simp: list_all_iff)
qed

theorem chromeImage_never_evaluates_script_witness:
  "Evaluate ''alert(1)'' \<notin> set (ChromeBrowser_buildTasks
        (NewChromeBrowser (chromeImage_options (sample_env None None) (sample_processor False)
           (sample_request ''chrome''))) ''https://example.com'' True)
   \<and> length (snd (snd (snd (ImageProcessor_HandleHttpRequest (logged (sample_env None None))
         (sample_processor False) ''/image'' None (Inr (sample_request ''chrome'')) None (0, []))))) = 2"
proof -
  have "length (snd (snd (snd (ImageProcessor_HandleHttpRequest (logged (sample_env None None))
         (sample_processor False) ''/image'' None (Inr (sample_request ''chrome'')) None (0, []))))) = 2"
    by (simp add: HandleHttpRequest_log chromeImage_log ChromeBrowser_Image_def Let_def logged_simps
        sample_env_def chromeImage_tasks_steps errors_Is_def)
  with chromeImage_never_evaluates_script
    [where env = "sample_env None None" and p = "sample_processor False"
       and r = "sample_request ''chrome''" and url = "''https://example.com''" and nav = True
       and s = "''alert(1)''"]
  show ?thesis
    by simp
qed

end
